theory Spec2Isabelle
  imports Main
begin

section \<open>The indexed corpus of gensim (gensim/corpora/indexedcorpus.py)\<close>

text \<open>
  The class \<^verbatim>\<open>IndexedCorpus\<close> gives random access to a corpus stored in a file: an
  index, the list of the byte offsets of the documents, is pickled beside the corpus by
  \<^verbatim>\<open>saveIndexedCorpus\<close>, unpickled by the constructor and used by
  \<^verbatim>\<open>__getitem__\<close>.

  Exceptions are values of the type \<open>error\<close>; a computation that may raise returns
  \<open>error + 'a\<close>, with \<open>Inl\<close> the exception raised. The file system is threaded
  through the operations that touch it.
\<close>

subsection \<open>Exceptions and Python objects\<close>

datatype error =
    NotImplementedError string
  | RuntimeError string
  | IndexError string
  | IOError string
  | UnpicklingError string

text \<open>
  The object bound to \<^verbatim>\<open>offsets\<close> and to \<^verbatim>\<open>self.index\<close>: Python's
  \<^verbatim>\<open>None\<close> or a sequence of offsets (unbounded Python integers).
\<close>

type_synonym pyobj = "int list option"

text \<open>
  Subscription of a Python sequence by an integer, \<^verbatim>\<open>xs[i]\<close>: positions are counted
  from the end for a negative \<open>i\<close>, and a position outside the sequence raises
  \<^verbatim>\<open>IndexError\<close>.
\<close>

definition list_getitem :: "'a list \<Rightarrow> int \<Rightarrow> error + 'a" where
  "list_getitem xs i =
     (let n = int (length xs) in
      if 0 \<le> i \<and> i < n then Inr (xs ! nat i)
      else if - n \<le> i \<and> i < 0 then Inr (xs ! nat (n + i))
      else Inl (IndexError ''list index out of range''))"

subsection \<open>The collaborators\<close>

text \<open>
  \<^verbatim>\<open>utils.pickle(obj, fname)\<close> and \<^verbatim>\<open>utils.unpickle(fname)\<close> live in
  \<^verbatim>\<open>gensim/utils.py\<close>; the operations below take them as a parameter, over any type
  \<open>'fs\<close> of file systems. Writing returns the file system it leaves, also when it
  raises; reading leaves the file system as it is.
\<close>

record 'fs utils =
  pickle :: "pyobj \<Rightarrow> string \<Rightarrow> 'fs \<Rightarrow> (error + unit) \<times> 'fs"
  unpickle :: "string \<Rightarrow> 'fs \<Rightarrow> error + pyobj"

text \<open>
  The corpus class on which \<^verbatim>\<open>saveIndexedCorpus\<close> is called: its
  \<^verbatim>\<open>__name__\<close> and its \<^verbatim>\<open>saveCorpus(fname, corpus)\<close>, which writes the documents
  and returns the offsets, or \<^verbatim>\<open>None\<close> when the format keeps no offsets.
\<close>

record ('doc, 'fs) serializer =
  cls_name :: string
  saveCorpus :: "string \<Rightarrow> 'doc list \<Rightarrow> 'fs \<Rightarrow> (error + pyobj) \<times> 'fs"

subsection \<open>The class\<close>

record IndexedCorpus =
  index :: pyobj

text \<open>
  \<^verbatim>\<open>__init__(self, fname, index_fname=None)\<close>. The bare \<^verbatim>\<open>except:\<close> catches
  whatever \<^verbatim>\<open>utils.unpickle\<close> raises. The result is a sum so that an exception
  leaving the constructor would be a value of the model.
\<close>

definition IndexedCorpus_init ::
  "'fs utils \<Rightarrow> string \<Rightarrow> string option \<Rightarrow> 'fs \<Rightarrow> error + IndexedCorpus" where
  "IndexedCorpus_init u fname index_fname fs =
     (let index_fname = (case index_fname of None \<Rightarrow> fname @ ''.index'' | Some p \<Rightarrow> p) in
      case unpickle u index_fname fs of
        Inr obj \<Rightarrow> Inr \<lparr>index = obj\<rparr>
      | Inl e \<Rightarrow> Inr \<lparr>index = None\<rparr>)"

text \<open>
  The message of the \<^verbatim>\<open>NotImplementedError\<close>: the string literal of the source runs
  over two lines, so the indentation of the second line is part of it.
\<close>

definition unsupported_msg :: "string \<Rightarrow> string" where
  "unsupported_msg name =
     ''called saveIndexedCorpus on class '' @ name @ '' which             doesn''
       @ [CHR 0x27] @ ''t support indexing!''"

text \<open>\<^verbatim>\<open>saveIndexedCorpus(serializer, fname, corpus, index_fname=None)\<close>.\<close>

definition saveIndexedCorpus ::
  "'fs utils \<Rightarrow> ('doc, 'fs) serializer \<Rightarrow> string \<Rightarrow> 'doc list \<Rightarrow> string option \<Rightarrow> 'fs
     \<Rightarrow> (error + unit) \<times> 'fs" where
  "saveIndexedCorpus u serializer fname corpus index_fname fs =
     (let index_fname = (case index_fname of None \<Rightarrow> fname @ ''.index'' | Some p \<Rightarrow> p) in
      case saveCorpus serializer fname corpus fs of
        (Inl e, fs1) \<Rightarrow> (Inl e, fs1)
      | (Inr None, fs1) \<Rightarrow> (Inl (NotImplementedError (unsupported_msg (cls_name serializer))), fs1)
      | (Inr (Some offsets), fs1) \<Rightarrow> pickle u (Some offsets) index_fname fs1)"

text \<open>
  \<^verbatim>\<open>__getitem__(self, docno)\<close>, with \<^verbatim>\<open>self.docbyoffset\<close>, the method of the
  inheriting class that decodes the document stored at an offset, as a parameter. The
  object is returned with the result, as the call leaves it.
\<close>

definition getitem ::
  "IndexedCorpus \<Rightarrow> (int \<Rightarrow> error + 'doc) \<Rightarrow> int \<Rightarrow> (error + 'doc) \<times> IndexedCorpus" where
  "getitem self docbyoffset docno =
     (case index self of
        None \<Rightarrow> (Inl (RuntimeError ''cannot call corpus[docid] without an index''), self)
      | Some idx \<Rightarrow>
          (case list_getitem idx docno of
             Inl e \<Rightarrow> (Inl e, self)
           | Inr offset \<Rightarrow> (docbyoffset offset, self)))"

text \<open>A client that makes one lookup after the other on the same object.\<close>

fun lookups ::
  "IndexedCorpus \<Rightarrow> (int \<Rightarrow> error + 'doc) \<Rightarrow> int list \<Rightarrow> (error + 'doc) list \<times> IndexedCorpus" where
  "lookups self docbyoffset [] = ([], self)"
| "lookups self docbyoffset (docno # docnos) =
     (case getitem self docbyoffset docno of
        (r, self1) \<Rightarrow> (case lookups self1 docbyoffset docnos of (rs, self2) \<Rightarrow> (r # rs, self2)))"

subsection \<open>A file system to run the operations on\<close>

datatype fcontent = Pickled pyobj | Data string

type_synonym fs = "string \<Rightarrow> fcontent option"

text \<open>
  Modelled from the spec: \<^verbatim>\<open>utils.pickle\<close> and \<^verbatim>\<open>utils.unpickle\<close>, which are not
  in the source given. Saving serializes the object to the path and overwrites any file
  there; loading fails when the file is missing or holds no serialized object.
\<close>

definition fs_utils :: "fs utils" where
  "fs_utils =
     \<lparr>pickle = (\<lambda>obj p fs. (Inr (), fs(p \<mapsto> Pickled obj))),
      unpickle = (\<lambda>p fs. case fs p of
                     None \<Rightarrow> Inl (IOError p)
                   | Some (Pickled obj) \<Rightarrow> Inr obj
                   | Some (Data s) \<Rightarrow> Inl (UnpicklingError p))\<rparr>"

text \<open>
  A line-oriented format for the examples: a document is a string, written on a line of
  its own, and its offset is the number of characters before it.
\<close>

fun line_offsets :: "nat \<Rightarrow> string list \<Rightarrow> int list" where
  "line_offsets pos [] = []"
| "line_offsets pos (d # ds) = int pos # line_offsets (pos + length d + 1) ds"

definition lines_text :: "string list \<Rightarrow> string" where
  "lines_text ds = concat (map (\<lambda>d. d @ [CHR 0x0A]) ds)"

definition line_serializer :: "(string, fs) serializer" where
  "line_serializer =
     \<lparr>cls_name = ''LineCorpus'',
      saveCorpus = (\<lambda>fname corpus fs.
        (Inr (Some (line_offsets 0 corpus)), fs(fname \<mapsto> Data (lines_text corpus))))\<rparr>"

definition line_docbyoffset :: "fs \<Rightarrow> string \<Rightarrow> int \<Rightarrow> error + string" where
  "line_docbyoffset fs fname offset =
     (case fs fname of
        Some (Data s) \<Rightarrow>
          if 0 \<le> offset \<and> offset \<le> int (length s)
          then Inr (takeWhile (\<lambda>c. c \<noteq> CHR 0x0A) (drop (nat offset) s))
          else Inl (IOError fname)
      | _ \<Rightarrow> Inl (IOError fname))"

text \<open>A format that keeps no offsets.\<close>

definition plain_serializer :: "(string, fs) serializer" where
  "plain_serializer =
     \<lparr>cls_name = ''PlainCorpus'',
      saveCorpus = (\<lambda>fname corpus fs. (Inr None, fs(fname \<mapsto> Data (lines_text corpus))))\<rparr>"

text \<open>
  The scenario used in the examples: three documents saved with \<open>line_serializer\<close>
  under \<^verbatim>\<open>c.txt\<close>, with the index at the default path, on an empty file system.
\<close>

definition abc_corpus :: "string list" where
  "abc_corpus = [''doc_a'', ''doc_b'', ''doc_c'']"

definition abc_fs :: fs where
  "abc_fs = snd (saveIndexedCorpus fs_utils line_serializer ''c.txt'' abc_corpus None Map.empty)"

section \<open>Properties\<close>

subsection \<open>Auxiliary facts\<close>

lemma list_getitem_nonneg: "0 \<le> i \<Longrightarrow> i < int (length xs) \<Longrightarrow> list_getitem xs i = Inr (xs ! nat i)"
  by (simp add: list_getitem_def)

lemma list_getitem_neg: "- int (length xs) \<le> i \<Longrightarrow> i < 0 \<Longrightarrow> list_getitem xs i = Inr (xs ! nat (int (length xs) + i))"
  by (simp add: list_getitem_def)

lemma list_getitem_out: "i < - int (length xs) \<or> int (length xs) \<le> i \<Longrightarrow> list_getitem xs i = Inl (IndexError ''list index out of range'')"
  by (auto simp add: list_getitem_def Let_def)

lemma abc_save: "saveIndexedCorpus fs_utils line_serializer ''c.txt'' abc_corpus None Map.empty = (Inr (), abc_fs)"
  by (simp add: abc_fs_def saveIndexedCorpus_def fs_utils_def line_serializer_def abc_corpus_def)

lemma abc_fs_files:
  "abc_fs ''c.txt'' = Some (Data (lines_text abc_corpus))"
  "abc_fs ''c.txt.index'' = Some (Pickled (Some [0, 6, 12]))"
  by (simp_all add: abc_fs_def saveIndexedCorpus_def fs_utils_def line_serializer_def abc_corpus_def)

lemma abc_decode:
  "line_docbyoffset abc_fs ''c.txt'' 0 = Inr ''doc_a''"
  "line_docbyoffset abc_fs ''c.txt'' 6 = Inr ''doc_b''"
  "line_docbyoffset abc_fs ''c.txt'' 12 = Inr ''doc_c''"
  by (simp_all add: line_docbyoffset_def abc_fs_files lines_text_def abc_corpus_def)

lemma fs_utils_roundtrip:
  "pickle fs_utils obj p f = (Inr (), f') \<Longrightarrow> unpickle fs_utils p f' = Inr obj"
  by (auto simp add: fs_utils_def)

lemma unsupported_msg_names: "\<exists>a b. unsupported_msg name = a @ name @ b"
  unfolding unsupported_msg_def by blast

lemma getitem_self: "snd (getitem self docbyoffset i) = self"
  by (simp add: getitem_def split: option.split sum.split)

lemma lookups_self: "snd (lookups self docbyoffset docnos) = self"
proof (induction docnos arbitrary: self)
  case Nil
  show ?case by simp
next
  case (Cons docno docnos)
  have "snd (lookups self docbyoffset (docno # docnos))
      = snd (lookups (snd (getitem self docbyoffset docno)) docbyoffset docnos)"
    by (simp add: case_prod_beta)
  also have "\<dots> = snd (getitem self docbyoffset docno)"
    by (rule Cons.IH)
  also have "\<dots> = self"
    by (rule getitem_self)
  finally show ?case .
qed

subsection \<open>Random access\<close>

text \<open>
  C1. On an object whose index is loaded, \<^verbatim>\<open>corpus[i]\<close> for a document number
  \<open>0 \<le> i < len(index)\<close> is exactly \<^verbatim>\<open>docbyoffset\<close> applied to the offset stored at
  position \<open>i\<close> of the index. When \<^verbatim>\<open>docbyoffset\<close> decodes, at the offset recorded
  for each document of a saved sequence \<open>D\<close>, that document, the lookup returns the
  \<open>i\<close>-th document of \<open>D\<close>.
\<close>

theorem getitem_delegates:
  assumes "index self = Some idx" and "0 \<le> i" and "i < int (length idx)"
  shows "fst (getitem self docbyoffset i) = docbyoffset (idx ! nat i) \<and>
         (length D = length idx \<and> (\<forall>j<length D. docbyoffset (idx ! j) = Inr (D ! j))
            \<longrightarrow> fst (getitem self docbyoffset i) = Inr (D ! nat i))"
proof -
  have g: "fst (getitem self docbyoffset i) = docbyoffset (idx ! nat i)"
    using assms by (simp add: getitem_def list_getitem_nonneg)
  have "nat i < length idx" using assms by simp
  with g show ?thesis by simp
qed

theorem getitem_delegates_witness:
  "fst (getitem \<lparr>index = Some [0, 6, 12]\<rparr> (line_docbyoffset abc_fs ''c.txt'') 1)
     = line_docbyoffset abc_fs ''c.txt'' 6 \<and>
   fst (getitem \<lparr>index = Some [0, 6, 12]\<rparr> (line_docbyoffset abc_fs ''c.txt'') 1) = Inr ''doc_b''"
proof -
  have dec: "\<forall>j<length abc_corpus.
      line_docbyoffset abc_fs ''c.txt'' ([0, 6, 12] ! j) = Inr (abc_corpus ! j)"
    by (simp add: abc_corpus_def abc_decode less_Suc_eq numeral_3_eq_3)
  have len: "length abc_corpus = length [0, 6, 12 :: int]"
    by (simp add: abc_corpus_def)
  have d: "abc_corpus ! nat 1 = ''doc_b''" by (simp add: abc_corpus_def)
  have i: "[0, 6, 12 :: int] ! nat 1 = 6" by simp
  have "index \<lparr>index = Some [0, 6, 12]\<rparr> = Some [0, 6, 12]" by simp
  moreover have "(0::int) \<le> 1" by simp
  moreover have "(1::int) < int (length [0, 6, 12 :: int])" by simp
  ultimately show ?thesis
    using getitem_delegates [of "\<lparr>index = Some [0, 6, 12]\<rparr>" "[0, 6, 12]" 1
        "line_docbyoffset abc_fs ''c.txt''" abc_corpus] dec len
    unfolding d i by blast
qed

text \<open>
  C10. On an object whose index is loaded with \<open>n\<close> offsets, \<^verbatim>\<open>corpus[i]\<close> for
  \<open>- n \<le> i < 0\<close> does not fail in the lookup itself: it is \<^verbatim>\<open>docbyoffset\<close> applied
  to the offset at position \<open>n + i\<close>, as Python counts a negative position from the end.
\<close>

theorem getitem_negative_wraps:
  assumes "index self = Some idx" and "- int (length idx) \<le> i" and "i < 0"
  shows "fst (getitem self docbyoffset i) = docbyoffset (idx ! nat (int (length idx) + i))"
  using assms by (simp add: getitem_def list_getitem_neg)

theorem getitem_negative_wraps_witness:
  "fst (getitem \<lparr>index = Some [0, 6, 12]\<rparr> (line_docbyoffset abc_fs ''c.txt'') (- 3))
     = Inr ''doc_a''"
  using getitem_negative_wraps [of "\<lparr>index = Some [0, 6, 12]\<rparr>" "[0, 6, 12]" "- 3"
      "line_docbyoffset abc_fs ''c.txt''"]
  by (simp add: abc_decode)

text \<open>
  The lookup \<^verbatim>\<open>corpus[-1]\<close> on an index of three offsets raises no
  \<^verbatim>\<open>IndexError\<close>: it decodes the document at the last offset.
\<close>

theorem getitem_out_of_range_counterexample:
  "fst (getitem \<lparr>index = Some [0, 6, 12]\<rparr> (Inr :: int \<Rightarrow> error + int) (- 1)) = Inr 12"
  by (simp add: getitem_def list_getitem_def)

text \<open>
  C3, as the code has it. On an object whose index is loaded with \<open>n\<close> offsets,
  \<^verbatim>\<open>corpus[i]\<close> raises \<^verbatim>\<open>IndexError\<close> for every \<open>i < - n\<close> and every
  \<open>i \<ge> n\<close>. (The negative numbers from \<open>- n\<close> on are positions, see C10.)
\<close>

theorem getitem_out_of_range:
  assumes "index self = Some idx" and "i < - int (length idx) \<or> int (length idx) \<le> i"
  shows "fst (getitem self docbyoffset i) = Inl (IndexError ''list index out of range'')"
  using assms by (simp add: getitem_def list_getitem_out)

theorem getitem_out_of_range_witness:
  "fst (getitem \<lparr>index = Some [0, 6, 12]\<rparr> (Inr :: int \<Rightarrow> error + int) 3)
     = Inl (IndexError ''list index out of range'') \<and>
   fst (getitem \<lparr>index = Some [0, 6, 12]\<rparr> (Inr :: int \<Rightarrow> error + int) (- 4))
     = Inl (IndexError ''list index out of range'')"
  using getitem_out_of_range [of "\<lparr>index = Some [0, 6, 12]\<rparr>" "[0, 6, 12]" 3 Inr]
    getitem_out_of_range [of "\<lparr>index = Some [0, 6, 12]\<rparr>" "[0, 6, 12]" "- 4" Inr]
  by simp

text \<open>
  C4. On an object without an index (\<^verbatim>\<open>self.index is None\<close>), \<^verbatim>\<open>corpus[i]\<close>
  raises the \<^verbatim>\<open>RuntimeError\<close> "cannot call corpus[docid] without an index",
  whatever \<open>i\<close> is.
\<close>

theorem getitem_without_index:
  assumes "index self = None"
  shows "fst (getitem self docbyoffset i)
           = Inl (RuntimeError ''cannot call corpus[docid] without an index'')"
  using assms by (simp add: getitem_def)

theorem getitem_without_index_witness:
  "fst (getitem \<lparr>index = None\<rparr> (line_docbyoffset abc_fs ''c.txt'') 0)
     = Inl (RuntimeError ''cannot call corpus[docid] without an index'')"
  using getitem_without_index [of "\<lparr>index = None\<rparr>" "line_docbyoffset abc_fs ''c.txt''" 0]
  by simp

text \<open>
  C8. A lookup returns the object as it found it, whether it succeeds or fails, and so
  does any sequence of lookups: the index stays what the constructor made it, and a
  later lookup behaves as it would have on the object as constructed.
\<close>

theorem lookup_keeps_index:
  "snd (getitem self docbyoffset i) = self \<and>
   snd (lookups self docbyoffset docnos) = self \<and>
   getitem (snd (lookups self docbyoffset docnos)) docbyoffset j = getitem self docbyoffset j"
  by (simp add: getitem_self lookups_self)

subsection \<open>Saving and loading the index\<close>

text \<open>
  C2. Let the serializer return one offset for each document of \<open>D\<close>, let
  \<^verbatim>\<open>saveIndexedCorpus\<close> return normally, and let \<^verbatim>\<open>utils.unpickle\<close> give back
  what \<^verbatim>\<open>utils.pickle\<close> stored. Then the constructor, called with the same file name
  and the same index file name, loads an index equal to the offsets the serializer
  returned, of length \<open>length D\<close>.
\<close>

theorem save_load_roundtrip:
  assumes sc: "saveCorpus s fname D fs = (Inr (Some offs), fs1)"
    and len: "length offs = length D"
    and sv: "saveIndexedCorpus u s fname D index_fname fs = (Inr (), fs2)"
    and rt: "\<forall>obj p f f'. pickle u obj p f = (Inr (), f') \<longrightarrow> unpickle u p f' = Inr obj"
  shows "\<exists>h. IndexedCorpus_init u fname index_fname fs2 = Inr h \<and> index h = Some offs
           \<and> map_option length (index h) = Some (length D)"
proof -
  let ?p = "case index_fname of None \<Rightarrow> fname @ ''.index'' | Some p \<Rightarrow> p"
  from sc sv have "pickle u (Some offs) ?p fs1 = (Inr (), fs2)"
    by (simp add: saveIndexedCorpus_def)
  with rt have "unpickle u ?p fs2 = Inr (Some offs)" by blast
  then have "IndexedCorpus_init u fname index_fname fs2 = Inr \<lparr>index = Some offs\<rparr>"
    by (simp add: IndexedCorpus_init_def)
  with len show ?thesis by simp
qed

theorem save_load_roundtrip_witness:
  "\<exists>h. IndexedCorpus_init fs_utils ''c.txt'' None abc_fs = Inr h \<and> index h = Some [0, 6, 12]
      \<and> map_option length (index h) = Some (length abc_corpus)"
proof -
  have sc: "saveCorpus line_serializer ''c.txt'' abc_corpus Map.empty
      = (Inr (Some [0, 6, 12]), Map.empty(''c.txt'' \<mapsto> Data (lines_text abc_corpus)))"
    by (simp add: line_serializer_def abc_corpus_def)
  have len: "length [0, 6, 12 :: int] = length abc_corpus" by (simp add: abc_corpus_def)
  have rt: "\<forall>obj p f f'. pickle fs_utils obj p f = (Inr (), f') \<longrightarrow> unpickle fs_utils p f' = Inr obj"
    using fs_utils_roundtrip by blast
  show ?thesis
    using save_load_roundtrip [OF sc len abc_save rt] .
qed

text \<open>
  C5. When \<^verbatim>\<open>saveCorpus\<close> returns \<^verbatim>\<open>None\<close>, \<^verbatim>\<open>saveIndexedCorpus\<close> raises a
  \<^verbatim>\<open>NotImplementedError\<close> whose message contains the name of the serializer, for
  every file name, corpus and index file name; \<^verbatim>\<open>utils.pickle\<close> is not reached, so
  the file system is the one \<^verbatim>\<open>saveCorpus\<close> left and no index file is written.
\<close>

theorem unsupported_serializer_raises:
  assumes "saveCorpus s fname D fs = (Inr None, fs1)"
  shows "saveIndexedCorpus u s fname D index_fname fs
           = (Inl (NotImplementedError (unsupported_msg (cls_name s))), fs1)
         \<and> (\<exists>a b. unsupported_msg (cls_name s) = a @ cls_name s @ b)"
  using assms by (simp add: saveIndexedCorpus_def unsupported_msg_names)

theorem unsupported_serializer_raises_witness:
  "saveIndexedCorpus fs_utils plain_serializer ''c.txt'' abc_corpus None Map.empty
     = (Inl (NotImplementedError (unsupported_msg ''PlainCorpus'')),
        Map.empty(''c.txt'' \<mapsto> Data (lines_text abc_corpus)))
   \<and> (Map.empty(''c.txt'' \<mapsto> Data (lines_text abc_corpus))) ''c.txt.index'' = None"
proof -
  have sc: "saveCorpus plain_serializer ''c.txt'' abc_corpus Map.empty
      = (Inr None, Map.empty(''c.txt'' \<mapsto> Data (lines_text abc_corpus)))"
    by (simp add: plain_serializer_def)
  have n: "cls_name plain_serializer = ''PlainCorpus''"
    by (simp add: plain_serializer_def)
  show ?thesis
    using unsupported_serializer_raises [OF sc, of fs_utils None] by (simp add: n)
qed

text \<open>
  C9. When \<^verbatim>\<open>saveCorpus\<close> returns the empty sequence of offsets,
  \<^verbatim>\<open>saveIndexedCorpus\<close> does not take it for \<^verbatim>\<open>None\<close>: it raises no
  \<^verbatim>\<open>NotImplementedError\<close> of its own and pickles the empty sequence to the index
  file, so the save ends as that \<^verbatim>\<open>utils.pickle\<close> call ends.
\<close>

theorem empty_offsets_saved:
  assumes "saveCorpus s fname D fs = (Inr (Some []), fs1)"
  shows "saveIndexedCorpus u s fname D index_fname fs
           = pickle u (Some []) (case index_fname of None \<Rightarrow> fname @ ''.index'' | Some p \<Rightarrow> p) fs1"
  using assms by (simp add: saveIndexedCorpus_def)

theorem empty_offsets_saved_witness:
  "saveIndexedCorpus fs_utils line_serializer ''e.txt'' [] None Map.empty
     = (Inr (), [''e.txt'' \<mapsto> Data [], ''e.txt.index'' \<mapsto> Pickled (Some [])])"
proof -
  have sc: "saveCorpus line_serializer ''e.txt'' [] Map.empty
      = (Inr (Some []), [''e.txt'' \<mapsto> Data []])"
    by (simp add: line_serializer_def lines_text_def)
  show ?thesis
    using empty_offsets_saved [OF sc, of fs_utils None] by (simp add: fs_utils_def)
qed

text \<open>
  C6. The constructor always returns an object; and whenever \<^verbatim>\<open>utils.unpickle\<close>
  raises on the index file, whatever the exception, the object has no index
  (\<^verbatim>\<open>self.index = None\<close>).
\<close>

theorem init_absorbs_load_failure:
  "(\<exists>h. IndexedCorpus_init u fname index_fname fs = Inr h) \<and>
   (unpickle u (case index_fname of None \<Rightarrow> fname @ ''.index'' | Some p \<Rightarrow> p) fs = Inl e
      \<longrightarrow> IndexedCorpus_init u fname index_fname fs = Inr \<lparr>index = None\<rparr>)"
  by (simp add: IndexedCorpus_init_def split: sum.split)

theorem init_absorbs_load_failure_witness:
  "unpickle fs_utils ''missing.index'' abc_fs = Inl (IOError ''missing.index'') \<and>
   IndexedCorpus_init fs_utils ''missing'' None abc_fs = Inr \<lparr>index = None\<rparr> \<and>
   unpickle fs_utils ''c.txt'' abc_fs = Inl (UnpicklingError ''c.txt'') \<and>
   IndexedCorpus_init fs_utils ''c.txt'' (Some ''c.txt'') abc_fs = Inr \<lparr>index = None\<rparr>"
proof -
  have m: "unpickle fs_utils ''missing.index'' abc_fs = Inl (IOError ''missing.index'')"
    by (simp add: fs_utils_def abc_fs_def saveIndexedCorpus_def line_serializer_def)
  have c: "unpickle fs_utils ''c.txt'' abc_fs = Inl (UnpicklingError ''c.txt'')"
    by (simp add: fs_utils_def abc_fs_files)
  show ?thesis
    using init_absorbs_load_failure [of fs_utils "''missing''" None abc_fs "IOError ''missing.index''"]
      init_absorbs_load_failure [of fs_utils "''c.txt''" "Some ''c.txt''" abc_fs "UnpicklingError ''c.txt''"]
      m c
    by simp
qed

text \<open>
  C7. Called without an index file name, the constructor reads the index from
  \<open>P + ".index"\<close> and \<^verbatim>\<open>saveIndexedCorpus\<close> pickles the offsets to
  \<open>P + ".index"\<close>, for every file name \<open>P\<close>; both then behave exactly as when called
  with that index file name, so a save and a load on the same \<open>P\<close> agree on where the
  index file is.
\<close>

theorem default_index_path:
  "(unpickle u (P @ ''.index'') fs = Inr obj
      \<longrightarrow> IndexedCorpus_init u P None fs = Inr \<lparr>index = obj\<rparr>) \<and>
   (saveCorpus s P D fs' = (Inr (Some offs), fs1)
      \<longrightarrow> saveIndexedCorpus u s P D None fs' = pickle u (Some offs) (P @ ''.index'') fs1) \<and>
   IndexedCorpus_init u P None fs = IndexedCorpus_init u P (Some (P @ ''.index'')) fs \<and>
   saveIndexedCorpus u s P D None fs' = saveIndexedCorpus u s P D (Some (P @ ''.index'')) fs'"
  by (simp add: IndexedCorpus_init_def saveIndexedCorpus_def)

theorem default_index_path_witness:
  "saveIndexedCorpus fs_utils line_serializer ''c.txt'' abc_corpus None Map.empty
     = (Inr (), [''c.txt'' \<mapsto> Data (lines_text abc_corpus),
                 ''c.txt.index'' \<mapsto> Pickled (Some [0, 6, 12])]) \<and>
   IndexedCorpus_init fs_utils ''c.txt'' None abc_fs = Inr \<lparr>index = Some [0, 6, 12]\<rparr>"
proof -
  have sc: "saveCorpus line_serializer ''c.txt'' abc_corpus Map.empty
      = (Inr (Some [0, 6, 12]), [''c.txt'' \<mapsto> Data (lines_text abc_corpus)])"
    by (simp add: line_serializer_def abc_corpus_def)
  have un: "unpickle fs_utils (''c.txt'' @ ''.index'') abc_fs = Inr (Some [0, 6, 12])"
    by (simp add: fs_utils_def abc_fs_files)
  have pk: "pickle fs_utils (Some [0, 6, 12]) (''c.txt'' @ ''.index'')
        [''c.txt'' \<mapsto> Data (lines_text abc_corpus)]
      = (Inr (), [''c.txt'' \<mapsto> Data (lines_text abc_corpus),
                  ''c.txt.index'' \<mapsto> Pickled (Some [0, 6, 12])])"
    by (simp add: fs_utils_def)
  from default_index_path [of fs_utils "''c.txt''" abc_fs "Some [0, 6, 12]" line_serializer
      abc_corpus Map.empty "[0, 6, 12]" "[''c.txt'' \<mapsto> Data (lines_text abc_corpus)]"]
  have "IndexedCorpus_init fs_utils ''c.txt'' None abc_fs = Inr \<lparr>index = Some [0, 6, 12]\<rparr>"
    and "saveIndexedCorpus fs_utils line_serializer ''c.txt'' abc_corpus None Map.empty
      = pickle fs_utils (Some [0, 6, 12]) (''c.txt'' @ ''.index'')
          [''c.txt'' \<mapsto> Data (lines_text abc_corpus)]"
    using sc un by blast+
  with pk show ?thesis by simp
qed

end
